theory Spec2Isabelle
  imports Complex_Main "HOL-Library.Char_ord" "HOL-Library.List_Lexorder"
begin

section \<open>Data model\<close>

text \<open>
  The Pydantic models of the API reference. Python's unbounded \<open>int\<close> is \<open>int\<close>, an
  \<open>Optional\<close> field is an \<open>option\<close>, a \<open>float\<close> is idealised as a \<open>real\<close> (the
  quotients below are the exact ones that Python's true division rounds). The metadata
  dictionary is an association list read with \<open>map_of\<close>; the type of its values (\<open>Any\<close>
  in the source) is the type variable \<open>'v\<close>.
\<close>

record AgentMetrics =
  agent_id :: string
  date :: string
  total_messages :: int
  total_responses :: int
  total_errors :: int
  average_response_time :: real
  total_tokens_used :: int
  average_feedback_score :: real
  unique_users :: int

text \<open>\<open>validate_metrics\<close>, check by check in the order of the source.\<close>

definition validate_metrics :: "AgentMetrics \<Rightarrow> bool" where
  "validate_metrics metrics =
     (if list_ex (\<lambda>count. count < 0)
           [total_messages metrics, total_responses metrics, total_errors metrics,
            total_tokens_used metrics, unique_users metrics]
        then False
      else if average_response_time metrics < 0 then False
      else if average_feedback_score metrics < 0 \<or> average_feedback_score metrics > 5
        then False
      else if total_responses metrics > total_messages metrics then False
      else if total_errors metrics > total_messages metrics then False
      else True)"

record MetricsResponse =
  agent_id :: string
  metrics :: AgentMetrics
  time_range :: string

record 'v AgentEvent =
  agent_id :: string
  timestamp :: string
  message_type :: string
  content :: "string option"
  metadata :: "(string \<times> 'v) list option"
  error_details :: "string option"
  response_time_ms :: "int option"
  token_count :: "int option"
  model_used :: "string option"
  user_feedback :: "int option"

text \<open>
  The Python exceptions of the aggregation: a name that is not bound, a division by zero,
  an unhashable value added to a set.
\<close>

datatype py_error = NameError string | ZeroDivisionError | TypeError

text \<open>Python truthiness of an \<open>Optional[int]\<close>: \<open>None\<close> and \<open>0\<close> are false.\<close>

definition truthy :: "int option \<Rightarrow> bool" where
  "truthy v = (case v of None \<Rightarrow> False | Some n \<Rightarrow> n \<noteq> 0)"

text \<open>The value read from a field that passed the truthiness test.\<close>

definition int_value :: "int option \<Rightarrow> int" where
  "int_value v = (case v of None \<Rightarrow> 0 | Some n \<Rightarrow> n)"

section \<open>Event validation\<close>

text \<open>\<open>event.timestamp.replace('Z', '+00:00')\<close>: every occurrence is replaced.\<close>

definition replace_Z :: "string \<Rightarrow> string" where
  "replace_Z s = concat (map (\<lambda>c. if c = CHR ''Z'' then ''+00:00'' else [c]) s)"

definition valid_types :: "string list" where
  "valid_types =
     [''user_message'', ''agent_response'', ''error'', ''feedback'',
      ''conversation_start'', ''conversation_end'', ''graph_step'', ''custom_metric'']"

text \<open>
  \<open>validate_event\<close>, check by check in the order of the source. The standard library's
  \<open>datetime.fromisoformat\<close> is a parameter: \<open>fromisoformat s\<close> holds when parsing
  \<open>s\<close> raises no \<open>ValueError\<close>.
\<close>

definition validate_event :: "(string \<Rightarrow> bool) \<Rightarrow> 'v AgentEvent \<Rightarrow> bool" where
  "validate_event fromisoformat event =
     (if agent_id event = [] \<or> timestamp event = [] \<or> message_type event = []
        then False
      else if \<not> fromisoformat (replace_Z (timestamp event)) then False
      else if message_type event \<notin> set valid_types then False
      else if truthy (response_time_ms event) \<and> int_value (response_time_ms event) < 0
        then False
      else if truthy (token_count event) \<and> int_value (token_count event) < 0 then False
      else if truthy (user_feedback event) \<and>
              \<not> (1 \<le> int_value (user_feedback event) \<and> int_value (user_feedback event) \<le> 5)
        then False
      else True)"

section \<open>Metrics aggregation\<close>

text \<open>
  A metadata value as the aggregation sees it: hashable (a string, a number, a boolean,
  \<open>None\<close>) or not (a list, a dictionary). Equality on \<open>'h\<close> stands for Python's equality
  of hashable values.
\<close>

datatype ('h, 'u) py_value = Hashable 'h | Unhashable 'u

text \<open>
  \<open>calculate_daily_metrics\<close> reads the names \<open>total_response_time\<close>,
  \<open>total_feedback_score\<close> and \<open>feedback_count\<close> and assigns none of them, so Python looks
  them up among the globals of the module when the line runs, and raises \<open>NameError\<close>
  for a name that is not bound. The globals are an argument of the model: \<open>None\<close> is a
  name that is not bound, and a bound name holds an integer. The documented module binds
  none of the three (\<open>unbound\<close>).
\<close>

record module_globals =
  total_response_time :: "int option"
  total_feedback_score :: "int option"
  feedback_count :: "int option"

definition unbound :: module_globals where
  "unbound = \<lparr>total_response_time = None, total_feedback_score = None, feedback_count = None\<rparr>"

text \<open>\<open>AgentMetrics(agent_id=agent_id, date=date)\<close>: every other field has its default.\<close>

definition new_metrics :: "string \<Rightarrow> string \<Rightarrow> AgentMetrics" where
  "new_metrics aid d =
     \<lparr>AgentMetrics.agent_id = aid, date = d, total_messages = 0, total_responses = 0,
      total_errors = 0, average_response_time = 0, total_tokens_used = 0,
      average_feedback_score = 0, unique_users = 0\<rparr>"

text \<open>
  The body of the first loop: the \<open>if\<close>/\<open>elif\<close> chain on the message type. The branch
  under \<open>if event.response_time_ms\<close> and the feedback branch are \<open>pass\<close>: they change
  nothing.
\<close>

definition count_event :: "'v AgentEvent \<Rightarrow> AgentMetrics \<Rightarrow> AgentMetrics" where
  "count_event event m =
     (if message_type event = ''user_message'' then
        m\<lparr>total_messages := total_messages m + 1\<rparr>
      else if message_type event = ''agent_response'' then
        (let m1 = m\<lparr>total_responses := total_responses m + 1\<rparr>;
             m2 = (if truthy (response_time_ms event) then m1 else m1)
         in if truthy (token_count event)
            then m2\<lparr>total_tokens_used := total_tokens_used m2 + int_value (token_count event)\<rparr>
            else m2)
      else if message_type event = ''error'' then
        m\<lparr>total_errors := total_errors m + 1\<rparr>
      else if message_type event = ''feedback'' \<and> truthy (user_feedback event) then m
      else m)"

text \<open>Python's true division raises on a zero divisor.\<close>

definition py_truediv :: "int \<Rightarrow> int \<Rightarrow> py_error + real" where
  "py_truediv a b =
     (if b = 0 then Inl ZeroDivisionError else Inr (real_of_int a / real_of_int b))"

text \<open>Reading a global name.\<close>

definition read_global :: "string \<Rightarrow> int option \<Rightarrow> py_error + int" where
  "read_global name v = (case v of None \<Rightarrow> Inl (NameError name) | Some n \<Rightarrow> Inr n)"

text \<open>
  The two guarded divisions after the loop, the names read in the order in which Python
  evaluates them: \<open>total_response_time\<close> when there is a response, then
  \<open>feedback_count\<close>, then \<open>total_feedback_score\<close> when the count is positive.
\<close>

definition calculate_averages :: "module_globals \<Rightarrow> AgentMetrics \<Rightarrow> py_error + AgentMetrics" where
  "calculate_averages g m =
     (case (if total_responses m > 0
            then (case read_global ''total_response_time'' (total_response_time g) of
                    Inl err \<Rightarrow> Inl err
                  | Inr t \<Rightarrow>
                      (case py_truediv t (total_responses m) of
                         Inl err \<Rightarrow> Inl err
                       | Inr q \<Rightarrow> Inr (m\<lparr>average_response_time := q\<rparr>)))
            else Inr m) of
        Inl err \<Rightarrow> Inl err
      | Inr m1 \<Rightarrow>
          (case read_global ''feedback_count'' (feedback_count g) of
             Inl err \<Rightarrow> Inl err
           | Inr c \<Rightarrow>
               if c > 0
               then (case read_global ''total_feedback_score'' (total_feedback_score g) of
                       Inl err \<Rightarrow> Inl err
                     | Inr sc \<Rightarrow>
                         (case py_truediv sc c of
                            Inl err \<Rightarrow> Inl err
                          | Inr q \<Rightarrow> Inr (m1\<lparr>average_feedback_score := q\<rparr>)))
               else Inr m1))"

text \<open>
  The body of the second loop: \<open>user_ids.add\<close> raises \<open>TypeError\<close> on a value that is
  not hashable.
\<close>

definition add_user_id ::
  "('h, 'u) py_value AgentEvent \<Rightarrow> 'h set \<Rightarrow> py_error + 'h set" where
  "add_user_id event user_ids =
     (case metadata event of
        None \<Rightarrow> Inr user_ids
      | Some md \<Rightarrow>
          if md = [] then Inr user_ids
          else (case map_of md ''user_id'' of
                  None \<Rightarrow> Inr user_ids
                | Some (Hashable u) \<Rightarrow> Inr (insert u user_ids)
                | Some (Unhashable x) \<Rightarrow> Inl TypeError))"

fun collect_user_ids ::
  "('h, 'u) py_value AgentEvent list \<Rightarrow> 'h set \<Rightarrow> py_error + 'h set" where
  "collect_user_ids [] user_ids = Inr user_ids"
| "collect_user_ids (event # events) user_ids =
     (case add_user_id event user_ids of
        Inl err \<Rightarrow> Inl err
      | Inr user_ids' \<Rightarrow> collect_user_ids events user_ids')"

text \<open>Lines 630 to 634: the set starts empty, and its size is the count.\<close>

definition count_unique_users :: "('h, 'u) py_value AgentEvent list \<Rightarrow> py_error + int" where
  "count_unique_users events =
     (case collect_user_ids events {} of
        Inl err \<Rightarrow> Inl err
      | Inr user_ids \<Rightarrow> Inr (int (card user_ids)))"

text \<open>
  \<open>calculate_daily_metrics\<close>. The events are the result of \<open>query_events_by_date\<close>,
  which the source calls and does not define; they are the last argument.
\<close>

definition calculate_daily_metrics ::
  "module_globals \<Rightarrow> string \<Rightarrow> string \<Rightarrow> ('h, 'u) py_value AgentEvent list
     \<Rightarrow> py_error + AgentMetrics" where
  "calculate_daily_metrics g aid d events =
     (case calculate_averages g (fold count_event events (new_metrics aid d)) of
        Inl err \<Rightarrow> Inl err
      | Inr m \<Rightarrow>
          (case count_unique_users events of
             Inl err \<Rightarrow> Inl err
           | Inr n \<Rightarrow> Inr (m\<lparr>unique_users := n\<rparr>)))"

text \<open>
  The specification's reading of \<open>unique_users\<close>: the set of the distinct
  \<open>metadata.user_id\<close> values across the events.
\<close>

definition user_id_of :: "'v AgentEvent \<Rightarrow> 'v option" where
  "user_id_of event = (case metadata event of None \<Rightarrow> None | Some md \<Rightarrow> map_of md ''user_id'')"

definition distinct_user_ids :: "'v AgentEvent list \<Rightarrow> 'v set" where
  "distinct_user_ids events = set (List.map_filter user_id_of events)"

definition hashable :: "('h, 'u) py_value \<Rightarrow> bool" where
  "hashable v = (case v of Hashable h \<Rightarrow> True | Unhashable x \<Rightarrow> False)"

section \<open>Event store\<close>

text \<open>
  The events table of DynamoDB: a list of items in which the primary key (partition key
  \<open>agent_id\<close>, sort key \<open>timestamp\<close>) occurs at most once (\<open>table_inv\<close>).
  \<open>put_item\<close> is the operation that \<open>batch_write_events\<close> calls for every event: an item
  with the same primary key is replaced. Strings are compared byte by byte, as DynamoDB
  orders string keys.
\<close>

type_synonym 'v table = "'v AgentEvent list"

definition primary_key :: "'v AgentEvent \<Rightarrow> string \<times> string" where
  "primary_key item = (agent_id item, timestamp item)"

definition table_inv :: "'v table \<Rightarrow> bool" where
  "table_inv tbl = distinct (map primary_key tbl)"

definition put_item :: "'v AgentEvent \<Rightarrow> 'v table \<Rightarrow> 'v table" where
  "put_item item tbl = filter (\<lambda>x. primary_key x \<noteq> primary_key item) tbl @ [item]"

datatype store_error = ClientError

record 'v query_response =
  Items :: "'v AgentEvent list"
  LastEvaluatedKey :: "(string \<times> string) option"

text \<open>
  The key condition of the source:
  \<open>Key('agent_id').eq(agent_id) & Key('timestamp').between(start_time, end_time)\<close>.
\<close>

definition key_condition :: "string \<Rightarrow> string \<Rightarrow> string \<Rightarrow> 'v AgentEvent \<Rightarrow> bool" where
  "key_condition a start_time end_time x =
     (agent_id x = a \<and> start_time \<le> timestamp x \<and> timestamp x \<le> end_time)"

definition matching_items :: "'v table \<Rightarrow> string \<Rightarrow> string \<Rightarrow> string \<Rightarrow> 'v AgentEvent list" where
  "matching_items tbl a start_time end_time =
     sort_key timestamp (filter (key_condition a start_time end_time) tbl)"

text \<open>
  \<open>table.query\<close> with \<open>ScanIndexForward=True\<close>: one page of the matching items in
  ascending order of the sort key, starting after \<open>ExclusiveStartKey\<close>, of at most
  \<open>Limit\<close> items; \<open>LastEvaluatedKey\<close> is the key of the last item read when the limit was
  reached. DynamoDB refuses a \<open>between\<close> whose upper bound is below its lower bound,
  which boto3 raises as a \<open>ClientError\<close>. The size limit of a page (1 MB) is not
  modelled.
\<close>

definition table_query ::
  "'v table \<Rightarrow> string \<Rightarrow> string \<Rightarrow> string \<Rightarrow> (string \<times> string) option \<Rightarrow> nat
     \<Rightarrow> store_error + 'v query_response" where
  "table_query tbl a start_time end_time ExclusiveStartKey Limit =
     (if end_time < start_time then Inl ClientError
      else
        (let rest = (case ExclusiveStartKey of
                       None \<Rightarrow> matching_items tbl a start_time end_time
                     | Some k \<Rightarrow> filter (\<lambda>x. snd k < timestamp x)
                                  (matching_items tbl a start_time end_time));
             page = take Limit rest
         in Inr \<lparr>Items = page,
                 LastEvaluatedKey =
                   (if Limit \<le> length rest \<and> page \<noteq> []
                    then Some (primary_key (last page)) else None)\<rparr>))"

text \<open>
  The \<open>while 'LastEvaluatedKey' in response\<close> loop of \<open>query_with_pagination\<close>: the
  arguments are the last response and the items collected so far.
\<close>

function paginate ::
  "'v table \<Rightarrow> string \<Rightarrow> string \<Rightarrow> string \<Rightarrow> 'v query_response \<Rightarrow> 'v AgentEvent list
     \<Rightarrow> store_error + 'v AgentEvent list" where
  "paginate tbl a start_time end_time response items =
     (case LastEvaluatedKey response of
        None \<Rightarrow> Inr items
      | Some k \<Rightarrow>
          (case table_query tbl a start_time end_time (Some k) 1000 of
             Inl err \<Rightarrow> Inl err
           | Inr response' \<Rightarrow>
               paginate tbl a start_time end_time response' (items @ Items response')))"
  by pat_completeness auto

lemma length_filter_narrower:
  assumes "y \<in> set xs" and "P y" and "\<not> Q y" and "\<And>x. Q x \<Longrightarrow> P x"
  shows "length (filter Q xs) < length (filter P xs)"
proof -
  have "filter Q xs = filter Q (filter P xs)"
    using assms(4) by (auto simp: filter_filter intro: filter_cong)
  moreover have "length (filter Q (filter P xs)) < length (filter P xs)"
    using assms(1-3) by (intro length_filter_less) auto
  ultimately show ?thesis by simp
qed

lemma table_query_next_key:
  assumes "table_query tbl a s e (Some k) 1000 = Inr r" and "LastEvaluatedKey r = Some k'"
  shows "length (filter (\<lambda>x. snd k' < timestamp x) (matching_items tbl a s e))
           < length (filter (\<lambda>x. snd k < timestamp x) (matching_items tbl a s e))"
proof -
  let ?M = "matching_items tbl a s e"
  let ?rest = "filter (\<lambda>x. snd k < timestamp x) ?M"
  let ?page = "take 1000 ?rest"
  from assms have ne: "?page \<noteq> []" and k': "k' = primary_key (last ?page)"
    by (auto simp: table_query_def Let_def split: if_splits)
  from ne have "last ?page \<in> set ?page" by (rule last_in_set)
  then have mem: "last ?page \<in> set ?rest" by (rule in_set_takeD)
  then have in_M: "last ?page \<in> set ?M" and gt: "snd k < timestamp (last ?page)" by auto
  have snd_k': "snd k' = timestamp (last ?page)" by (simp add: k' primary_key_def)
  show ?thesis
  proof (rule length_filter_narrower [OF in_M])
    show "snd k < timestamp (last ?page)" by (rule gt)
    show "\<not> snd k' < timestamp (last ?page)" by (simp add: snd_k')
    fix x assume "snd k' < timestamp x"
    with gt snd_k' show "snd k < timestamp x" by simp
  qed
qed

termination paginate
proof (relation "measure (\<lambda>(tbl, a, s, e, response, items).
         case LastEvaluatedKey response of
           None \<Rightarrow> 0
         | Some k \<Rightarrow> Suc (length (filter (\<lambda>x. snd k < timestamp x) (matching_items tbl a s e))))")
  show "wf (measure (\<lambda>(tbl, a, s, e, response, items).
         case LastEvaluatedKey response of
           None \<Rightarrow> 0
         | Some k \<Rightarrow> Suc (length (filter (\<lambda>x. snd k < timestamp x) (matching_items tbl a s e)))))"
    by simp
next
  fix tbl :: "'a table" and a s e :: string and response :: "'a query_response"
    and items :: "'a AgentEvent list" and k :: "string \<times> string" and r :: "'a query_response"
  assume "LastEvaluatedKey response = Some k" and "table_query tbl a s e (Some k) 1000 = Inr r"
  then show "((tbl, a, s, e, r, items @ Items r), (tbl, a, s, e, response, items))
        \<in> measure (\<lambda>(tbl, a, s, e, response, items).
             case LastEvaluatedKey response of
               None \<Rightarrow> 0
             | Some k \<Rightarrow> Suc (length (filter (\<lambda>x. snd k < timestamp x) (matching_items tbl a s e))))"
    using table_query_next_key [of tbl a s e k r] by (auto split: option.splits)
qed

declare paginate.simps [simp del]

text \<open>\<open>query_with_pagination\<close>: the first query, then the loop.\<close>

definition query_with_pagination ::
  "'v table \<Rightarrow> string \<Rightarrow> string \<Rightarrow> string \<Rightarrow> store_error + 'v AgentEvent list" where
  "query_with_pagination tbl a start_time end_time =
     (case table_query tbl a start_time end_time None 1000 of
        Inl err \<Rightarrow> Inl err
      | Inr response \<Rightarrow> paginate tbl a start_time end_time response (Items response))"

section \<open>The write path and the metrics endpoint\<close>

datatype api_error = ValidationError | NotFoundError | StoreError

definition http_status :: "api_error \<Rightarrow> nat" where
  "http_status err =
     (case err of ValidationError \<Rightarrow> 400 | NotFoundError \<Rightarrow> 404 | StoreError \<Rightarrow> 500)"

text \<open>
  Modelled from the spec: \<open>put\<close>, the write operation of the Event Store Accessor, whose
  handler is not among the sources. Section 4.1: it fails with ValidationError on an
  event that does not pass validation (here \<open>validate_event\<close>), and otherwise stores
  the event, a duplicate (agent_id, timestamp) overwriting the stored one.
\<close>

definition put :: "(string \<Rightarrow> bool) \<Rightarrow> 'v AgentEvent \<Rightarrow> 'v table \<Rightarrow> api_error + 'v table" where
  "put fromisoformat event tbl =
     (if validate_event fromisoformat event then Inr (put_item event tbl)
      else Inl ValidationError)"

text \<open>
  The invariant of an Event in section 3 of the specification: the three required
  fields are present, the timestamp is an ISO-8601 string, the message type is one of
  the enumeration, the numeric fields are non-negative when present and the feedback
  score lies in [1,5] when present.
\<close>

definition well_formed :: "(string \<Rightarrow> bool) \<Rightarrow> 'v AgentEvent \<Rightarrow> bool" where
  "well_formed fromisoformat event =
     (agent_id event \<noteq> [] \<and> timestamp event \<noteq> [] \<and> message_type event \<noteq> [] \<and>
      fromisoformat (replace_Z (timestamp event)) \<and>
      message_type event \<in> set valid_types \<and>
      (case response_time_ms event of None \<Rightarrow> True | Some n \<Rightarrow> 0 \<le> n) \<and>
      (case token_count event of None \<Rightarrow> True | Some n \<Rightarrow> 0 \<le> n) \<and>
      (case user_feedback event of None \<Rightarrow> True | Some n \<Rightarrow> 1 \<le> n \<and> n \<le> 5))"

text \<open>
  Modelled from the spec: the handlers of \<open>GET /agents\<close> and of
  \<open>GET /agents/{agent_id}/metrics?start_date&end_date\<close>, which are not among the sources
  (only the test \<open>test_get_agent_metrics_not_found\<close> and the API reference are).
  Sections 6 and 7: \<open>GET /agents\<close> gives the ordered list of distinct agent identifiers;
  the metrics of an unknown agent are a NotFoundError (404); a failure of the store is a
  StoreError (500); otherwise the events of the range are aggregated, by
  \<open>calculate_daily_metrics\<close> under the globals \<open>g\<close> of the module, an exception of which
  is reported as a failure of the request (500).
\<close>

definition list_agents :: "'v table \<Rightarrow> string list" where
  "list_agents tbl = sort (remdups (map agent_id tbl))"

definition get_agent_metrics ::
  "module_globals \<Rightarrow> ('h, 'u) py_value table \<Rightarrow> string \<Rightarrow> string \<Rightarrow> string
     \<Rightarrow> api_error + MetricsResponse" where
  "get_agent_metrics g tbl a start_date end_date =
     (if a \<notin> set (list_agents tbl) then Inl NotFoundError
      else (case query_with_pagination tbl a start_date end_date of
              Inl err \<Rightarrow> Inl StoreError
            | Inr events \<Rightarrow>
                (case calculate_daily_metrics g a (start_date @ ''_to_'' @ end_date) events of
                   Inl err \<Rightarrow> Inl StoreError
                 | Inr m \<Rightarrow>
                     Inr \<lparr>MetricsResponse.agent_id = a, metrics = m,
                          time_range = start_date @ '' to '' @ end_date\<rparr>)))"

definition response_status :: "api_error + 'a \<Rightarrow> nat" where
  "response_status r = (case r of Inl err \<Rightarrow> http_status err | Inr body \<Rightarrow> 200)"

section \<open>KPI change\<close>

text \<open>
  Modelled from the spec: the computation behind \<open>/dashboard/kpis\<close>, which is not among
  the sources (only its caller \<open>KPICards\<close> is). Section 4.3: the same aggregation runs on
  the requested window and on the window of equal length just before it, and the change
  is \<open>(current - prior) / prior * 100\<close>; for \<open>prior = 0\<close> the specification leaves the
  result open between an increase of 100 and undefined, which is the parameter of type
  \<open>zero_policy\<close>. A window is a pair of day numbers, both ends included; an undefined
  change is \<open>None\<close>.
\<close>

datatype zero_policy = Increase_100 | Undefined

definition prior_window :: "int \<times> int \<Rightarrow> int \<times> int" where
  "prior_window w = (fst w - (snd w - fst w + 1), fst w - 1)"

definition percentage_change :: "zero_policy \<Rightarrow> real \<Rightarrow> real \<Rightarrow> real option" where
  "percentage_change on_zero current prior =
     (if prior = 0 then (case on_zero of Increase_100 \<Rightarrow> Some 100 | Undefined \<Rightarrow> None)
      else Some ((current - prior) / prior * 100))"

definition kpi_change :: "zero_policy \<Rightarrow> (int \<times> int \<Rightarrow> real) \<Rightarrow> int \<times> int \<Rightarrow> real option" where
  "kpi_change on_zero aggregate w =
     percentage_change on_zero (aggregate w) (aggregate (prior_window w))"

text \<open>
  \<open>KPICards\<close> reads the change of a KPI of the response as \<open>Number(k.change || 0)\<close>: a
  missing or zero change is 0, any other number is itself.
\<close>

definition number_or_zero :: "real option \<Rightarrow> real" where
  "number_or_zero x = (case x of None \<Rightarrow> 0 | Some v \<Rightarrow> if v = 0 then 0 else v)"

section \<open>Frontend API client\<close>

text \<open>
  A \<open>URLSearchParams\<close> object is the list of its name-value pairs in the order of the
  \<open>append\<close> calls. Numbers are integers (the day count and the limit), printed in
  decimal as \<open>toString()\<close> and \<open>String\<close> print an integer.
\<close>

type_synonym search_params = "(string \<times> string) list"

fun digits :: "nat \<Rightarrow> string" where
  "digits n = (if n < 10 then [char_of (48 + n)] else digits (n div 10) @ [char_of (48 + n mod 10)])"

declare digits.simps [simp del]

definition number_toString :: "int \<Rightarrow> string" where
  "number_toString n = (if n < 0 then CHR ''-'' # digits (nat (- n)) else digits (nat n))"

text \<open>\<open>if (v) sp.append(name, v.toString())\<close> for an optional number: 0 is falsy.\<close>

definition append_number :: "string \<Rightarrow> int option \<Rightarrow> search_params \<Rightarrow> search_params" where
  "append_number name v sp =
     (case v of None \<Rightarrow> sp | Some n \<Rightarrow> if n = 0 then sp else sp @ [(name, number_toString n)])"

text \<open>\<open>if (v) sp.append(name, v)\<close> for an optional string: the empty string is falsy.\<close>

definition append_string :: "string \<Rightarrow> string option \<Rightarrow> search_params \<Rightarrow> search_params" where
  "append_string name v sp =
     (case v of None \<Rightarrow> sp | Some str \<Rightarrow> if str = [] then sp else sp @ [(name, str)])"

text \<open>\<open>params?.field\<close>: undefined when \<open>params\<close> is.\<close>

definition optional_field :: "('p \<Rightarrow> 'a option) \<Rightarrow> 'p option \<Rightarrow> 'a option" where
  "optional_field field params = (case params of None \<Rightarrow> None | Some p \<Rightarrow> field p)"

text \<open>
  \<open>URLSearchParams.toString()\<close>: the application/x-www-form-urlencoded serialisation,
  byte by byte on the UTF-8 encoding.
\<close>

definition hex_digit :: "nat \<Rightarrow> char" where
  "hex_digit n = (if n < 10 then char_of (48 + n) else char_of (55 + n))"

definition urlencode_byte :: "char \<Rightarrow> string" where
  "urlencode_byte c =
     (let n = (of_char c :: nat) in
      if c = CHR '' '' then ''+''
      else if c \<in> set ''*-._'' \<or> (48 \<le> n \<and> n \<le> 57) \<or> (65 \<le> n \<and> n \<le> 90) \<or> (97 \<le> n \<and> n \<le> 122)
        then [c]
      else [CHR ''%'', hex_digit (n div 16), hex_digit (n mod 16)])"

definition urlencode :: "string \<Rightarrow> string" where
  "urlencode str = concat (map urlencode_byte str)"

fun join_pairs :: "search_params \<Rightarrow> string" where
  "join_pairs [] = []"
| "join_pairs [(k, v)] = urlencode k @ ''='' @ urlencode v"
| "join_pairs ((k, v) # p # ps) = urlencode k @ ''='' @ urlencode v @ ''&'' @ join_pairs (p # ps)"

record MetricsParams =
  days :: "int option"
  startDate :: "string option"
  endDate :: "string option"

definition getAgentMetrics_searchParams :: "MetricsParams option \<Rightarrow> search_params" where
  "getAgentMetrics_searchParams params =
     append_string ''end_date'' (optional_field MetricsParams.endDate params)
       (append_string ''start_date'' (optional_field MetricsParams.startDate params)
         (append_number ''days'' (optional_field days params) []))"

text \<open>\<open>api.getAgentMetrics\<close>: the endpoint that it passes to \<open>apiCall\<close>.\<close>

definition getAgentMetrics :: "string \<Rightarrow> MetricsParams option \<Rightarrow> string" where
  "getAgentMetrics agentId params =
     (let queryString = join_pairs (getAgentMetrics_searchParams params)
      in ''/agents/'' @ agentId @ ''/metrics'' @
         (if queryString \<noteq> [] then ''?'' @ queryString else []))"

record EventsParams =
  agentId :: "string option"
  messageType :: "string option"
  startDate :: "string option"
  endDate :: "string option"
  limit :: "int option"

definition getEvents_searchParams :: "EventsParams option \<Rightarrow> search_params" where
  "getEvents_searchParams params =
     append_number ''limit'' (optional_field limit params)
       (append_string ''end_date'' (optional_field EventsParams.endDate params)
         (append_string ''start_date'' (optional_field EventsParams.startDate params)
           (append_string ''message_type'' (optional_field messageType params)
             (append_string ''agent_id'' (optional_field agentId params) []))))"

text \<open>\<open>api.getEvents\<close>: the endpoint that it passes to \<open>apiCall\<close>.\<close>

definition getEvents :: "EventsParams option \<Rightarrow> string" where
  "getEvents params =
     (let qs = join_pairs (getEvents_searchParams params)
      in ''/events'' @ (if qs \<noteq> [] then ''?'' @ qs else []))"

text \<open>\<open>apiCall\<close> requests the endpoint under the base URL.\<close>

definition apiCall_url :: "string \<Rightarrow> string \<Rightarrow> string" where
  "apiCall_url API_BASE_URL endpoint = API_BASE_URL @ endpoint"

section \<open>Properties of the aggregation and of the validation\<close>

lemma fold_count_event_total_responses:
  "total_responses (fold count_event events m) =
     total_responses m + int (length (filter (\<lambda>e. message_type e = ''agent_response'') events))"
  by (induction events arbitrary: m) (simp_all add: count_event_def Let_def)

lemma fold_count_event_total_messages:
  "total_messages (fold count_event events m) =
     total_messages m + int (length (filter (\<lambda>e. message_type e = ''user_message'') events))"
  by (induction events arbitrary: m) (simp_all add: count_event_def Let_def)



lemma calculate_averages_unbound:
  "calculate_averages unbound m =
     Inl (NameError (if total_responses m > 0 then ''total_response_time'' else ''feedback_count''))"
  by (simp add: calculate_averages_def read_global_def unbound_def)

lemma calculate_averages_no_zero_division: "calculate_averages g m \<noteq> Inl ZeroDivisionError"
  by (auto simp: calculate_averages_def read_global_def py_truediv_def
      split: option.splits if_splits sum.splits)

lemma calculate_averages_counts:
  assumes "calculate_averages g m = Inr m'"
  shows "total_responses m' = total_responses m" and "total_messages m' = total_messages m"
  using assms
  by (auto simp: calculate_averages_def read_global_def py_truediv_def
      split: option.splits if_splits sum.splits)



lemma collect_user_ids_unhashable:
  "\<exists>v \<in> distinct_user_ids events. \<not> hashable v \<Longrightarrow> collect_user_ids events S = Inl TypeError"
proof (induction events arbitrary: S)
  case Nil
  then show ?case by (simp add: distinct_user_ids_def)
next
  case (Cons e es)
  have split: "distinct_user_ids (e # es) = set_option (user_id_of e) \<union> distinct_user_ids es"
    by (auto simp: distinct_user_ids_def split: option.splits)
  show ?case
  proof (cases "add_user_id e S")
    case (Inl err)
    then have "err = TypeError"
      by (auto simp: add_user_id_def split: option.splits if_splits py_value.splits)
    with Inl show ?thesis by simp
  next
    case (Inr S1)
    then have "\<forall>v \<in> set_option (user_id_of e). hashable v"
      by (auto simp: add_user_id_def user_id_of_def hashable_def
          split: option.splits if_splits py_value.splits)
    with Cons.prems split have "\<exists>v \<in> distinct_user_ids es. \<not> hashable v" by auto
    from Cons.IH [OF this, of S1] Inr show ?thesis by simp
  qed
qed




lemma calculate_daily_metrics_unbound:
  "calculate_daily_metrics unbound aid d events =
     Inl (NameError (if filter (\<lambda>e. message_type e = ''agent_response'') events = []
                     then ''feedback_count'' else ''total_response_time''))"
  by (simp add: calculate_daily_metrics_def calculate_averages_unbound
        fold_count_event_total_responses new_metrics_def)

lemma collect_user_ids_error: "collect_user_ids events S = Inl err \<Longrightarrow> err = TypeError"
  by (induction events arbitrary: S)
     (auto simp: add_user_id_def split: sum.splits option.splits if_splits py_value.splits)




text \<open>
  C2. Under the globals of the documented module, which binds none of the three names,
  \<open>calculate_daily_metrics\<close> returns no metrics value: on the empty event list, and on
  every list without an \<open>agent_response\<close>, it raises \<open>NameError\<close> for \<open>feedback_count\<close>,
  and on every other list for \<open>total_response_time\<close>. Under any globals it never raises
  \<open>ZeroDivisionError\<close>: both divisions are guarded by their divisor being positive.
\<close>

theorem calculate_daily_metrics_name_error:
  "calculate_daily_metrics unbound aid d [] = Inl (NameError ''feedback_count'') \<and>
   calculate_daily_metrics unbound aid d events =
     Inl (NameError (if filter (\<lambda>e. message_type e = ''agent_response'') events = []
                     then ''feedback_count'' else ''total_response_time'')) \<and>
   calculate_daily_metrics g aid d events \<noteq> Inl ZeroDivisionError"
proof (intro conjI)
  show "calculate_daily_metrics unbound aid d [] = Inl (NameError ''feedback_count'')"
    using calculate_daily_metrics_unbound [of aid d "[]"] by simp
  show "calculate_daily_metrics unbound aid d events =
     Inl (NameError (if filter (\<lambda>e. message_type e = ''agent_response'') events = []
                     then ''feedback_count'' else ''total_response_time''))"
    by (rule calculate_daily_metrics_unbound)
  show "calculate_daily_metrics g aid d events \<noteq> Inl ZeroDivisionError"
    using calculate_averages_no_zero_division [of g "fold count_event events (new_metrics aid d)"]
    by (auto simp: calculate_daily_metrics_def count_unique_users_def split: sum.splits
        dest: collect_user_ids_error)
qed



text \<open>
  A \<open>user_id\<close> that is a list is not hashable: the loop raises \<open>TypeError\<close>.
\<close>

lemma count_unique_users_unhashable:
  "count_unique_users
     [\<lparr>agent_id = ''a'', timestamp = ''2024-01-07T10:00:00Z'', message_type = ''user_message'',
       content = None,
       metadata = Some [(''user_id'', (Unhashable [''u1'', ''u2''] :: (string, string list) py_value))],
       error_details = None, response_time_ms = None, token_count = None, model_used = None,
       user_feedback = None\<rparr>] = Inl TypeError"
  by (simp add: count_unique_users_def add_user_id_def)

text \<open>
  C4, as amended. \<open>validate_metrics\<close> rejects every metrics value in which
  \<open>total_responses\<close> exceeds \<open>total_messages\<close>. The counting loop of the aggregation
  does not enforce the relation: on an event list with more \<open>agent_response\<close> than
  \<open>user_message\<close> events it leaves a metrics object in which \<open>total_responses\<close> exceeds
  \<open>total_messages\<close>, which \<open>validate_metrics\<close> rejects.
\<close>

theorem validate_metrics_rejects_more_responses:
  "(total_messages m < total_responses m \<longrightarrow> \<not> validate_metrics m) \<and>
   (length (filter (\<lambda>e. message_type e = ''user_message'') events)
      < length (filter (\<lambda>e. message_type e = ''agent_response'') events)
    \<longrightarrow> total_messages (fold count_event events (new_metrics aid d))
          < total_responses (fold count_event events (new_metrics aid d)) \<and>
        \<not> validate_metrics (fold count_event events (new_metrics aid d)))"
proof -
  have rej: "\<not> validate_metrics x" if "total_messages x < total_responses x" for x
    using that by (simp add: validate_metrics_def)
  have "total_messages (fold count_event events (new_metrics aid d))
          < total_responses (fold count_event events (new_metrics aid d))"
    if "length (filter (\<lambda>e. message_type e = ''user_message'') events)
          < length (filter (\<lambda>e. message_type e = ''agent_response'') events)"
    using that
    by (simp add: fold_count_event_total_responses fold_count_event_total_messages new_metrics_def)
  with rej show ?thesis by blast
qed

text \<open>
  The amended C4 on a metrics value of 150 responses to 148 messages, and on the event
  list of a single \<open>agent_response\<close>.
\<close>

theorem validate_metrics_rejects_more_responses_witness:
  "\<not> validate_metrics \<lparr>AgentMetrics.agent_id = ''a'', date = ''2024-01-07'', total_messages = 148,
        total_responses = 150, total_errors = 2, average_response_time = 1250,
        total_tokens_used = 4500, average_feedback_score = 4, unique_users = 45\<rparr>
   \<and> total_messages (fold count_event
          [\<lparr>agent_id = ''a'', timestamp = ''2024-01-07T10:00:00Z'', message_type = ''agent_response'',
            content = None, metadata = (None :: (string \<times> string) list option),
            error_details = None, response_time_ms = Some 200, token_count = None,
            model_used = None, user_feedback = None\<rparr>] (new_metrics ''a'' ''2024-01-07''))
       < total_responses (fold count_event
          [\<lparr>agent_id = ''a'', timestamp = ''2024-01-07T10:00:00Z'', message_type = ''agent_response'',
            content = None, metadata = (None :: (string \<times> string) list option),
            error_details = None, response_time_ms = Some 200, token_count = None,
            model_used = None, user_feedback = None\<rparr>] (new_metrics ''a'' ''2024-01-07''))"
  using validate_metrics_rejects_more_responses [of
      "\<lparr>AgentMetrics.agent_id = ''a'', date = ''2024-01-07'', total_messages = 148,
        total_responses = 150, total_errors = 2, average_response_time = 1250,
        total_tokens_used = 4500, average_feedback_score = 4, unique_users = 45\<rparr>"
      "[\<lparr>agent_id = ''a'', timestamp = ''2024-01-07T10:00:00Z'', message_type = ''agent_response'',
            content = None, metadata = (None :: (string \<times> string) list option),
            error_details = None, response_time_ms = Some 200, token_count = None,
            model_used = None, user_feedback = None\<rparr>]" "''a''" "''2024-01-07''"]
  by simp

text \<open>
  C4 as stated fails: \<open>validate_metrics\<close> rejects a metrics value of 2 responses to 1
  message, and accepts the same value with 2 messages.
\<close>

theorem validate_metrics_not_enforced_counterexample:
  "\<not> validate_metrics \<lparr>AgentMetrics.agent_id = ''a'', date = ''2024-01-07'', total_messages = 1,
        total_responses = 2, total_errors = 0, average_response_time = 100,
        total_tokens_used = 0, average_feedback_score = 0, unique_users = 1\<rparr>
   \<and> validate_metrics \<lparr>AgentMetrics.agent_id = ''a'', date = ''2024-01-07'', total_messages = 2,
        total_responses = 2, total_errors = 0, average_response_time = 100,
        total_tokens_used = 0, average_feedback_score = 0, unique_users = 1\<rparr>"
  by (simp add: validate_metrics_def)

text \<open>
  C3. For an event that passes \<open>validate_event\<close> without a feedback score,
  \<open>validate_event\<close> accepts the score \<open>n\<close> exactly when \<open>n\<close> is 0 or lies in [1, 5]:
  the scores 1 and 5 are accepted, every score below 0 or above 5 is rejected, and the
  score 0, which is outside [1, 5], is accepted, since the range check runs only on a
  truthy score.
\<close>

theorem validate_event_user_feedback:
  assumes "validate_event fromisoformat (event\<lparr>user_feedback := None\<rparr>)"
  shows "validate_event fromisoformat (event\<lparr>user_feedback := Some n\<rparr>)
           \<longleftrightarrow> n = 0 \<or> (1 \<le> n \<and> n \<le> 5)"
  using assms by (auto simp: validate_event_def truthy_def int_value_def split: if_splits)

text \<open>
  C3 at the score 0: a feedback event of agent \<open>agent-1\<close> with \<open>user_feedback = 0\<close> passes
  \<open>validate_event\<close>.
\<close>

theorem validate_event_user_feedback_witness:
  "validate_event (\<lambda>s. s = ''2024-01-07T10:30:00+00:00'')
     \<lparr>agent_id = ''agent-1'', timestamp = ''2024-01-07T10:30:00Z'', message_type = ''feedback'',
      content = None, metadata = (None :: (string \<times> string) list option), error_details = None,
      response_time_ms = None, token_count = None, model_used = None, user_feedback = Some 0\<rparr>"
proof -
  have "validate_event (\<lambda>s. s = ''2024-01-07T10:30:00+00:00'')
     (\<lparr>agent_id = ''agent-1'', timestamp = ''2024-01-07T10:30:00Z'', message_type = ''feedback'',
      content = None, metadata = (None :: (string \<times> string) list option), error_details = None,
      response_time_ms = None, token_count = None, model_used = None, user_feedback = Some 0\<rparr>
        \<lparr>user_feedback := None\<rparr>)"
    by (simp add: validate_event_def replace_Z_def valid_types_def truthy_def)
  from validate_event_user_feedback [OF this, of 0] show ?thesis by simp
qed

section \<open>Properties of the event store\<close>

lemma filter_after_last:
  fixes f :: "'a \<Rightarrow> 'b::linorder"
  assumes srt: "sorted (map f (A @ B))" and dst: "distinct (map f (A @ B))" and ne: "A \<noteq> []"
  shows "filter (\<lambda>x. f (last A) < f x) (A @ B) = B"
proof -
  have lastA: "last A \<in> set A" using ne by simp
  have A_le: "f x \<le> f (last A)" if "x \<in> set A" for x
  proof -
    from srt have sA: "sorted (map f A)" by (simp add: sorted_append)
    from ne have "A = butlast A @ [last A]" by simp
    then have "sorted (map f (butlast A @ [last A]))" using sA by simp
    then have "\<forall>y \<in> set (butlast A). f y \<le> f (last A)" by (simp add: sorted_append)
    moreover from that ne have "x \<in> set (butlast A) \<or> x = last A"
      by (metis Un_iff append_butlast_last_id empty_iff empty_set set_ConsD set_append)
    ultimately show ?thesis by auto
  qed
  have B_gt: "f (last A) < f y" if "y \<in> set B" for y
  proof -
    from srt lastA that have "f (last A) \<le> f y" by (auto simp: sorted_append)
    moreover from dst lastA that have "f (last A) \<noteq> f y" by auto
    ultimately show ?thesis by simp
  qed
  have "filter (\<lambda>x. f (last A) < f x) A = []"
    using A_le by (auto simp: filter_empty_conv not_less)
  moreover have "filter (\<lambda>x. f (last A) < f x) B = B"
    using B_gt by (simp add: filter_id_conv)
  ultimately show ?thesis by simp
qed

lemma sorted_matching_items: "sorted (map timestamp (matching_items tbl a s e))"
  by (simp add: matching_items_def)

lemma set_matching_items:
  "set (matching_items tbl a s e) = {x \<in> set tbl. key_condition a s e x}"
  by (auto simp: matching_items_def)

lemma distinct_table: "table_inv tbl \<Longrightarrow> distinct tbl"
  by (simp add: table_inv_def distinct_map)

lemma distinct_matching_items: "table_inv tbl \<Longrightarrow> distinct (matching_items tbl a s e)"
  by (simp add: matching_items_def distinct_table)

lemma distinct_timestamps_matching_items:
  assumes "table_inv tbl"
  shows "distinct (map timestamp (matching_items tbl a s e))"
proof -
  let ?M = "matching_items tbl a s e"
  have "inj_on primary_key (set tbl)"
    using assms by (simp add: table_inv_def distinct_map)
  then have inj: "inj_on primary_key (set ?M)"
    by (rule inj_on_subset) (auto simp: set_matching_items)
  have "inj_on timestamp (set ?M)"
  proof (rule inj_onI)
    fix x y assume x: "x \<in> set ?M" and y: "y \<in> set ?M" and eq: "timestamp x = timestamp y"
    from x y have "agent_id x = agent_id y" by (auto simp: set_matching_items key_condition_def)
    with eq have "primary_key x = primary_key y" by (simp add: primary_key_def)
    with inj x y show "x = y" by (auto dest: inj_onD)
  qed
  with distinct_matching_items [OF assms] show ?thesis by (simp add: distinct_map)
qed

text \<open>
  Two pages of a table of two events: with a limit of 1 the first page holds the earlier
  event and its key as \<open>LastEvaluatedKey\<close>; the query that starts after that key returns
  the later event and no \<open>LastEvaluatedKey\<close>.
\<close>

lemma table_query_pages:
  "table_query
     [\<lparr>agent_id = ''agent-1'', timestamp = ''2024-01-07T12:00:00Z'', message_type = ''agent_response'',
       content = None, metadata = (None :: (string \<times> string) list option), error_details = None,
       response_time_ms = Some 100, token_count = None, model_used = None, user_feedback = None\<rparr>,
      \<lparr>agent_id = ''agent-1'', timestamp = ''2024-01-07T10:00:00Z'', message_type = ''user_message'',
       content = None, metadata = None, error_details = None,
       response_time_ms = None, token_count = None, model_used = None, user_feedback = None\<rparr>]
     ''agent-1'' ''2024-01-07T00:00:00Z'' ''2024-01-07T23:59:59Z'' None 1
   = Inr \<lparr>Items =
       [\<lparr>agent_id = ''agent-1'', timestamp = ''2024-01-07T10:00:00Z'', message_type = ''user_message'',
         content = None, metadata = None, error_details = None,
         response_time_ms = None, token_count = None, model_used = None, user_feedback = None\<rparr>],
       LastEvaluatedKey = Some (''agent-1'', ''2024-01-07T10:00:00Z'')\<rparr>
   \<and> table_query
     [\<lparr>agent_id = ''agent-1'', timestamp = ''2024-01-07T12:00:00Z'', message_type = ''agent_response'',
       content = None, metadata = (None :: (string \<times> string) list option), error_details = None,
       response_time_ms = Some 100, token_count = None, model_used = None, user_feedback = None\<rparr>,
      \<lparr>agent_id = ''agent-1'', timestamp = ''2024-01-07T10:00:00Z'', message_type = ''user_message'',
       content = None, metadata = None, error_details = None,
       response_time_ms = None, token_count = None, model_used = None, user_feedback = None\<rparr>]
     ''agent-1'' ''2024-01-07T00:00:00Z'' ''2024-01-07T23:59:59Z''
     (Some (''agent-1'', ''2024-01-07T10:00:00Z'')) 2
   = Inr \<lparr>Items =
       [\<lparr>agent_id = ''agent-1'', timestamp = ''2024-01-07T12:00:00Z'', message_type = ''agent_response'',
         content = None, metadata = None, error_details = None,
         response_time_ms = Some 100, token_count = None, model_used = None, user_feedback = None\<rparr>],
       LastEvaluatedKey = None\<rparr>"
  by (simp add: table_query_def matching_items_def key_condition_def primary_key_def Let_def)

lemma paginate_collects:
  assumes "table_inv tbl" and "\<not> e < s"
    and "case LastEvaluatedKey response of
           None \<Rightarrow> items = matching_items tbl a s e
         | Some k \<Rightarrow> items \<noteq> [] \<and> snd k = timestamp (last items) \<and>
                      (\<exists>B. matching_items tbl a s e = items @ B)"
  shows "paginate tbl a s e response items = Inr (matching_items tbl a s e)"
  using assms
proof (induction tbl a s e response items rule: paginate.induct)
  case (1 tbl a s e response items)
  let ?M = "matching_items tbl a s e"
  show ?case
  proof (cases "LastEvaluatedKey response")
    case None
    with "1.prems" show ?thesis by (simp add: paginate.simps)
  next
    case (Some k)
    with "1.prems" obtain B where ne: "items \<noteq> []" and k: "snd k = timestamp (last items)"
      and M: "?M = items @ B" by auto
    have rest: "filter (\<lambda>x. snd k < timestamp x) ?M = B"
      using filter_after_last [of timestamp items B] sorted_matching_items [of tbl a s e]
        distinct_timestamps_matching_items [OF "1.prems"(1), of a s e] ne
      unfolding M k by simp
    define r :: "'a query_response" where
      "r = \<lparr>Items = take 1000 B,
            LastEvaluatedKey = (if 1000 \<le> length B \<and> take 1000 B \<noteq> []
                                then Some (primary_key (last (take 1000 B))) else None)\<rparr>"
    have q: "table_query tbl a s e (Some k) 1000 = Inr r"
      using "1.prems"(2) by (simp add: table_query_def rest r_def Let_def)
    have inv: "case LastEvaluatedKey r of
           None \<Rightarrow> items @ Items r = ?M
         | Some k' \<Rightarrow> items @ Items r \<noteq> [] \<and> snd k' = timestamp (last (items @ Items r)) \<and>
                      (\<exists>B'. ?M = (items @ Items r) @ B')"
    proof (cases "1000 \<le> length B")
      case True
      then have "take 1000 B \<noteq> []" by auto
      moreover have "\<exists>B'. ?M = (items @ take 1000 B) @ B'"
        by (rule exI [of _ "drop 1000 B"]) (simp add: M)
      ultimately show ?thesis using True ne by (simp add: r_def primary_key_def)
    next
      case False
      then show ?thesis by (simp add: r_def M)
    qed
    have "paginate tbl a s e r (items @ Items r) = Inr ?M"
      using "1.IH" [OF Some q "1.prems"(1,2) inv] .
    then show ?thesis by (simp add: paginate.simps [of tbl a s e response items] Some q)
  qed
qed

lemma query_with_pagination_eq:
  assumes "table_inv tbl" and "s \<le> e"
  shows "query_with_pagination tbl a s e = Inr (matching_items tbl a s e)"
proof -
  let ?M = "matching_items tbl a s e"
  from assms(2) have ns: "\<not> e < s" by simp
  define r :: "'a query_response" where
    "r = \<lparr>Items = take 1000 ?M,
          LastEvaluatedKey = (if 1000 \<le> length ?M \<and> take 1000 ?M \<noteq> []
                              then Some (primary_key (last (take 1000 ?M))) else None)\<rparr>"
  have q: "table_query tbl a s e None 1000 = Inr r"
    using ns by (simp add: table_query_def r_def Let_def)
  have inv: "case LastEvaluatedKey r of
           None \<Rightarrow> Items r = ?M
         | Some k \<Rightarrow> Items r \<noteq> [] \<and> snd k = timestamp (last (Items r)) \<and>
                      (\<exists>B. ?M = Items r @ B)"
  proof (cases "1000 \<le> length ?M")
    case True
    then have "take 1000 ?M \<noteq> []" by auto
    moreover have "\<exists>B. ?M = take 1000 ?M @ B"
      by (rule exI [of _ "drop 1000 ?M"]) simp
    ultimately show ?thesis using True by (simp add: r_def primary_key_def)
  next
    case False
    then show ?thesis by (simp add: r_def)
  qed
  show ?thesis
    using paginate_collects [OF assms(1) ns inv] by (simp add: query_with_pagination_def q)
qed

lemma well_formed_validate_event:
  "well_formed fromisoformat event \<Longrightarrow> validate_event fromisoformat event"
  by (auto simp: well_formed_def validate_event_def truthy_def int_value_def split: option.splits)

lemma table_inv_empty: "table_inv []"
  by (simp add: table_inv_def)

lemma table_inv_put_item: "table_inv tbl \<Longrightarrow> table_inv (put_item item tbl)"
  by (auto simp: table_inv_def put_item_def distinct_map_filter)

lemma count_list_distinct: "distinct xs \<Longrightarrow> x \<in> set xs \<Longrightarrow> count_list xs x = 1"
  by (induction xs) auto

text \<open>
  C7. On a table in which no primary key occurs twice, and for \<open>start_time \<le> end_time\<close>,
  \<open>query_with_pagination\<close> raises no error and returns exactly the stored events of the
  agent whose timestamp lies in the closed interval from \<open>start_time\<close> to \<open>end_time\<close>,
  each once, in ascending order of the timestamp, whatever the number of pages; when no
  stored event matches, it returns the empty list.
\<close>

theorem query_with_pagination_range:
  assumes "table_inv tbl" and "start_time \<le> end_time"
  shows "\<exists>items. query_with_pagination tbl a start_time end_time = Inr items \<and>
           items = sort_key timestamp
                     (filter (\<lambda>x. agent_id x = a \<and> start_time \<le> timestamp x \<and>
                                   timestamp x \<le> end_time) tbl) \<and>
           set items = {x \<in> set tbl. agent_id x = a \<and> start_time \<le> timestamp x \<and>
                                     timestamp x \<le> end_time} \<and>
           distinct items \<and> sorted (map timestamp items) \<and>
           ((\<forall>x \<in> set tbl. \<not> (agent_id x = a \<and> start_time \<le> timestamp x \<and>
                                  timestamp x \<le> end_time)) \<longrightarrow> items = [])"
proof -
  let ?M = "matching_items tbl a start_time end_time"
  have q: "query_with_pagination tbl a start_time end_time = Inr ?M"
    using assms by (rule query_with_pagination_eq)
  have eq: "?M = sort_key timestamp
                     (filter (\<lambda>x. agent_id x = a \<and> start_time \<le> timestamp x \<and>
                                   timestamp x \<le> end_time) tbl)"
    by (simp add: matching_items_def key_condition_def [abs_def])
  have st: "set ?M = {x \<in> set tbl. agent_id x = a \<and> start_time \<le> timestamp x \<and>
                                     timestamp x \<le> end_time}"
    by (simp add: set_matching_items key_condition_def)
  have d: "distinct ?M" using assms(1) by (rule distinct_matching_items)
  have s: "sorted (map timestamp ?M)" by (rule sorted_matching_items)
  have emp: "?M = []"
    if "\<forall>x \<in> set tbl. \<not> (agent_id x = a \<and> start_time \<le> timestamp x \<and> timestamp x \<le> end_time)"
  proof -
    from that st have "set ?M = {}" by auto
    then show ?thesis by simp
  qed
  from q eq st d s emp show ?thesis by blast
qed

text \<open>
  C7 on a table of four events: of the three events of \<open>agent-1\<close>, the two of 7 January
  are returned, the earlier first; on 8 January, when the agent has no event, the empty
  list is returned.
\<close>

theorem query_with_pagination_range_witness:
  "query_with_pagination
     [\<lparr>agent_id = ''agent-1'', timestamp = ''2024-01-07T12:00:00Z'', message_type = ''agent_response'',
       content = None, metadata = (None :: (string \<times> string) list option), error_details = None,
       response_time_ms = Some 100, token_count = None, model_used = None, user_feedback = None\<rparr>,
      \<lparr>agent_id = ''agent-2'', timestamp = ''2024-01-07T11:00:00Z'', message_type = ''user_message'',
       content = None, metadata = None, error_details = None,
       response_time_ms = None, token_count = None, model_used = None, user_feedback = None\<rparr>,
      \<lparr>agent_id = ''agent-1'', timestamp = ''2024-01-07T10:00:00Z'', message_type = ''user_message'',
       content = None, metadata = None, error_details = None,
       response_time_ms = None, token_count = None, model_used = None, user_feedback = None\<rparr>,
      \<lparr>agent_id = ''agent-1'', timestamp = ''2024-01-09T10:00:00Z'', message_type = ''error'',
       content = None, metadata = None, error_details = None,
       response_time_ms = None, token_count = None, model_used = None, user_feedback = None\<rparr>]
     ''agent-1'' ''2024-01-07T00:00:00Z'' ''2024-01-07T23:59:59Z''
   = Inr
     [\<lparr>agent_id = ''agent-1'', timestamp = ''2024-01-07T10:00:00Z'', message_type = ''user_message'',
       content = None, metadata = None, error_details = None,
       response_time_ms = None, token_count = None, model_used = None, user_feedback = None\<rparr>,
      \<lparr>agent_id = ''agent-1'', timestamp = ''2024-01-07T12:00:00Z'', message_type = ''agent_response'',
       content = None, metadata = None, error_details = None,
       response_time_ms = Some 100, token_count = None, model_used = None, user_feedback = None\<rparr>]
   \<and> query_with_pagination
     [\<lparr>agent_id = ''agent-1'', timestamp = ''2024-01-07T12:00:00Z'', message_type = ''agent_response'',
       content = None, metadata = (None :: (string \<times> string) list option), error_details = None,
       response_time_ms = Some 100, token_count = None, model_used = None, user_feedback = None\<rparr>,
      \<lparr>agent_id = ''agent-2'', timestamp = ''2024-01-07T11:00:00Z'', message_type = ''user_message'',
       content = None, metadata = None, error_details = None,
       response_time_ms = None, token_count = None, model_used = None, user_feedback = None\<rparr>,
      \<lparr>agent_id = ''agent-1'', timestamp = ''2024-01-07T10:00:00Z'', message_type = ''user_message'',
       content = None, metadata = None, error_details = None,
       response_time_ms = None, token_count = None, model_used = None, user_feedback = None\<rparr>,
      \<lparr>agent_id = ''agent-1'', timestamp = ''2024-01-09T10:00:00Z'', message_type = ''error'',
       content = None, metadata = None, error_details = None,
       response_time_ms = None, token_count = None, model_used = None, user_feedback = None\<rparr>]
     ''agent-1'' ''2024-01-08T00:00:00Z'' ''2024-01-08T23:59:59Z''
   = Inr []"
proof -
  let ?tbl = "[\<lparr>agent_id = ''agent-1'', timestamp = ''2024-01-07T12:00:00Z'', message_type = ''agent_response'',
       content = None, metadata = (None :: (string \<times> string) list option), error_details = None,
       response_time_ms = Some 100, token_count = None, model_used = None, user_feedback = None\<rparr>,
      \<lparr>agent_id = ''agent-2'', timestamp = ''2024-01-07T11:00:00Z'', message_type = ''user_message'',
       content = None, metadata = None, error_details = None,
       response_time_ms = None, token_count = None, model_used = None, user_feedback = None\<rparr>,
      \<lparr>agent_id = ''agent-1'', timestamp = ''2024-01-07T10:00:00Z'', message_type = ''user_message'',
       content = None, metadata = None, error_details = None,
       response_time_ms = None, token_count = None, model_used = None, user_feedback = None\<rparr>,
      \<lparr>agent_id = ''agent-1'', timestamp = ''2024-01-09T10:00:00Z'', message_type = ''error'',
       content = None, metadata = None, error_details = None,
       response_time_ms = None, token_count = None, model_used = None, user_feedback = None\<rparr>]"
  have inv: "table_inv ?tbl" by (simp add: table_inv_def primary_key_def)
  have le7: "''2024-01-07T00:00:00Z'' \<le> ''2024-01-07T23:59:59Z''" by simp
  have le8: "''2024-01-08T00:00:00Z'' \<le> ''2024-01-08T23:59:59Z''" by simp
  from query_with_pagination_range [OF inv le7, of "''agent-1''"]
    query_with_pagination_range [OF inv le8, of "''agent-1''"]
  show ?thesis by simp
qed

text \<open>
  C5. On a table in which no primary key occurs twice, \<open>put\<close> accepts every well-formed
  event, and a query of the event's agent over a range that covers its timestamp then
  returns a list that contains the event exactly once. An event stored under the same
  (agent_id, timestamp) is overwritten by \<open>put\<close>, so the table need not be free of one.
\<close>

theorem put_then_query_once:
  assumes "table_inv tbl" and "well_formed fromisoformat event"
    and "start_time \<le> timestamp event" and "timestamp event \<le> end_time"
  shows "\<exists>tbl'. put fromisoformat event tbl = Inr tbl' \<and>
           (\<exists>items. query_with_pagination tbl' (agent_id event) start_time end_time = Inr items \<and>
                     count_list items event = 1)"
proof -
  let ?tbl = "put_item event tbl"
  let ?M = "matching_items ?tbl (agent_id event) start_time end_time"
  have p: "put fromisoformat event tbl = Inr ?tbl"
    using well_formed_validate_event [OF assms(2)] by (simp add: put_def)
  have inv: "table_inv ?tbl" using assms(1) by (rule table_inv_put_item)
  from assms(3,4) have le: "start_time \<le> end_time" by (rule order_trans)
  have q: "query_with_pagination ?tbl (agent_id event) start_time end_time = Inr ?M"
    using inv le by (rule query_with_pagination_eq)
  have "event \<in> set ?M"
    using assms(3,4) by (simp add: set_matching_items key_condition_def put_item_def)
  moreover have "distinct ?M" using inv by (rule distinct_matching_items)
  ultimately have "count_list ?M event = 1" by (simp add: count_list_distinct)
  with p q show ?thesis by blast
qed

text \<open>
  C5 on a table of one event, for a feedback event of the same agent half an hour later.
\<close>

theorem put_then_query_once_witness:
  "\<exists>tbl'. put (\<lambda>s. s = ''2024-01-07T10:30:00+00:00'')
       \<lparr>agent_id = ''agent-1'', timestamp = ''2024-01-07T10:30:00Z'', message_type = ''feedback'',
        content = None, metadata = Some [(''user_id'', ''u1'')], error_details = None,
        response_time_ms = None, token_count = None, model_used = None, user_feedback = Some 5\<rparr>
       [\<lparr>agent_id = ''agent-1'', timestamp = ''2024-01-07T10:00:00Z'', message_type = ''user_message'',
         content = None, metadata = None, error_details = None,
         response_time_ms = None, token_count = None, model_used = None, user_feedback = None\<rparr>]
     = Inr tbl' \<and>
     (\<exists>items. query_with_pagination tbl' ''agent-1'' ''2024-01-07T00:00:00Z'' ''2024-01-07T23:59:59Z''
                = Inr items \<and>
        count_list items
          \<lparr>agent_id = ''agent-1'', timestamp = ''2024-01-07T10:30:00Z'', message_type = ''feedback'',
           content = None, metadata = Some [(''user_id'', ''u1'')], error_details = None,
           response_time_ms = None, token_count = None, model_used = None, user_feedback = Some 5\<rparr>
          = 1)"
proof -
  let ?f = "\<lambda>s. s = ''2024-01-07T10:30:00+00:00''"
  let ?e = "\<lparr>agent_id = ''agent-1'', timestamp = ''2024-01-07T10:30:00Z'', message_type = ''feedback'',
        content = None, metadata = Some [(''user_id'', ''u1'')], error_details = None,
        response_time_ms = None, token_count = None, model_used = None, user_feedback = Some 5\<rparr>"
  let ?tbl = "[\<lparr>agent_id = ''agent-1'', timestamp = ''2024-01-07T10:00:00Z'', message_type = ''user_message'',
         content = None, metadata = (None :: (string \<times> string) list option), error_details = None,
         response_time_ms = None, token_count = None, model_used = None, user_feedback = None\<rparr>]"
  have inv: "table_inv ?tbl" by (simp add: table_inv_def)
  have wf: "well_formed ?f ?e" by (simp add: well_formed_def replace_Z_def valid_types_def)
  have lo: "''2024-01-07T00:00:00Z'' \<le> timestamp ?e" by simp
  have hi: "timestamp ?e \<le> ''2024-01-07T23:59:59Z''" by simp
  from put_then_query_once [OF inv wf lo hi] show ?thesis by simp
qed

section \<open>Properties of the metrics endpoint and of the KPI change\<close>

lemma set_list_agents: "set (list_agents tbl) = agent_id ` set tbl"
  by (simp add: list_agents_def)

text \<open>
  C9. For an agent of which the table holds no event, the metrics endpoint fails with
  NotFoundError, which is the status 404.
\<close>

theorem get_agent_metrics_unknown_agent:
  assumes "\<forall>x \<in> set tbl. agent_id x \<noteq> a"
  shows "get_agent_metrics g tbl a start_date end_date = Inl NotFoundError \<and>
         response_status (get_agent_metrics g tbl a start_date end_date) = 404"
proof -
  from assms have "a \<notin> set (list_agents tbl)" by (auto simp: set_list_agents)
  then have "get_agent_metrics g tbl a start_date end_date = Inl NotFoundError"
    by (simp add: get_agent_metrics_def)
  then show ?thesis by (simp add: response_status_def http_status_def)
qed

text \<open>
  C9 for \<open>unknown-agent\<close> on a table that holds one event of \<open>agent-1\<close>.
\<close>

theorem get_agent_metrics_unknown_agent_witness:
  "response_status (get_agent_metrics unbound
     [\<lparr>agent_id = ''agent-1'', timestamp = ''2024-01-07T10:00:00Z'', message_type = ''user_message'',
       content = None, metadata = (None :: (string \<times> (string, unit) py_value) list option),
       error_details = None, response_time_ms = None, token_count = None, model_used = None,
       user_feedback = None\<rparr>]
     ''unknown-agent'' ''2024-01-01'' ''2024-01-07'') = 404"
  using get_agent_metrics_unknown_agent [where g = unbound and a = "''unknown-agent''"
     and start_date = "''2024-01-01''" and end_date = "''2024-01-07''" and tbl =
     "[\<lparr>agent_id = ''agent-1'', timestamp = ''2024-01-07T10:00:00Z'', message_type = ''user_message'',
       content = None, metadata = (None :: (string \<times> (string, unit) py_value) list option),
       error_details = None, response_time_ms = None, token_count = None, model_used = None,
       user_feedback = None\<rparr>]"]
  by (simp add: response_status_def http_status_def)

text \<open>
  C8. For every aggregate and every window, the prior window is the window of equal
  length that ends the day before the requested one starts; when the prior aggregate is
  not 0, the change that \<open>KPICards\<close> reports is
  \<open>(current - prior) / prior * 100\<close>; when it is 0, the change is an increase of 100
  or undefined, as the implementation chose.
\<close>

theorem kpi_change_reported:
  "(aggregate (prior_window w) \<noteq> 0 \<longrightarrow>
      number_or_zero (kpi_change on_zero aggregate w)
        = (aggregate w - aggregate (prior_window w)) / aggregate (prior_window w) * 100) \<and>
   (aggregate (prior_window w) = 0 \<longrightarrow>
      kpi_change on_zero aggregate w = (if on_zero = Increase_100 then Some 100 else None)) \<and>
   snd (prior_window w) = fst w - 1 \<and>
   snd (prior_window w) - fst (prior_window w) = snd w - fst w"
  by (cases on_zero)
     (simp_all add: kpi_change_def percentage_change_def number_or_zero_def prior_window_def)

text \<open>
  C8 for the week of days 8 to 14: an aggregate of 150 after 100 in the week before is a
  change of 50; after 0, the change is an increase of 100 under the one choice and
  undefined under the other.
\<close>

theorem kpi_change_reported_witness:
  "number_or_zero (kpi_change Undefined (\<lambda>w. if w = (8, 14) then 150 else 100) (8, 14)) = 50 \<and>
   kpi_change Increase_100 (\<lambda>w. if w = (8, 14) then 150 else 0) (8, 14) = Some 100 \<and>
   kpi_change Undefined (\<lambda>w. if w = (8, 14) then 150 else 0) (8, 14) = None"
  using kpi_change_reported [of "\<lambda>w. if w = (8, 14) then 150 else 100" "(8, 14)" Undefined]
    kpi_change_reported [of "\<lambda>w. if w = (8, 14) then 150 else 0" "(8, 14)" Increase_100]
    kpi_change_reported [of "\<lambda>w. if w = (8, 14) then 150 else 0" "(8, 14)" Undefined]
  by (simp add: prior_window_def)

section \<open>Properties of the frontend API client\<close>

lemma append_string_keys: "fst ` set (append_string name v sp) \<subseteq> insert name (fst ` set sp)"
  by (auto simp: append_string_def split: option.splits)

lemma append_number_zero: "append_number name (Some 0) sp = append_number name None sp"
  by (simp add: append_number_def)

text \<open>
  C10. \<open>getAgentMetrics\<close> called with \<open>days = 0\<close> requests the same endpoint as a call
  without \<open>days\<close>, and its search parameters hold no \<open>days\<close>; \<open>getEvents\<close> called with
  \<open>limit = 0\<close> requests the same endpoint as a call without \<open>limit\<close>, and its search
  parameters hold no \<open>limit\<close>.
\<close>

theorem zero_days_and_zero_limit_dropped:
  "getAgentMetrics agent (Some (p\<lparr>days := Some 0\<rparr>)) = getAgentMetrics agent (Some (p\<lparr>days := None\<rparr>)) \<and>
   ''days'' \<notin> fst ` set (getAgentMetrics_searchParams (Some (p\<lparr>days := Some 0\<rparr>))) \<and>
   getEvents (Some (q\<lparr>limit := Some 0\<rparr>)) = getEvents (Some (q\<lparr>limit := None\<rparr>)) \<and>
   ''limit'' \<notin> fst ` set (getEvents_searchParams (Some (q\<lparr>limit := Some 0\<rparr>)))"
proof (intro conjI)
  have sp: "getAgentMetrics_searchParams (Some (p\<lparr>days := Some 0\<rparr>))
              = getAgentMetrics_searchParams (Some (p\<lparr>days := None\<rparr>))"
    by (simp add: getAgentMetrics_searchParams_def optional_field_def append_number_zero)
  then show "getAgentMetrics agent (Some (p\<lparr>days := Some 0\<rparr>))
               = getAgentMetrics agent (Some (p\<lparr>days := None\<rparr>))"
    by (simp add: getAgentMetrics_def)
  have "fst ` set (getAgentMetrics_searchParams (Some (p\<lparr>days := None\<rparr>)))
          \<subseteq> {''end_date'', ''start_date''}"
    unfolding getAgentMetrics_searchParams_def optional_field_def
    using append_string_keys [of "''end_date''" "MetricsParams.endDate p"
            "append_string ''start_date'' (MetricsParams.startDate p) []"]
          append_string_keys [of "''start_date''" "MetricsParams.startDate p" "[]"]
    by (auto simp: append_number_def)
  with sp show "''days'' \<notin> fst ` set (getAgentMetrics_searchParams (Some (p\<lparr>days := Some 0\<rparr>)))"
    by auto
  have sq: "getEvents_searchParams (Some (q\<lparr>limit := Some 0\<rparr>))
              = getEvents_searchParams (Some (q\<lparr>limit := None\<rparr>))"
    by (simp add: getEvents_searchParams_def optional_field_def append_number_zero)
  then show "getEvents (Some (q\<lparr>limit := Some 0\<rparr>)) = getEvents (Some (q\<lparr>limit := None\<rparr>))"
    by (simp add: getEvents_def)
  let ?s1 = "append_string ''agent_id'' (agentId q) []"
  let ?s2 = "append_string ''message_type'' (messageType q) ?s1"
  let ?s3 = "append_string ''start_date'' (startDate q) ?s2"
  let ?s4 = "append_string ''end_date'' (endDate q) ?s3"
  have "fst ` set ?s1 \<subseteq> {''agent_id''}"
    using append_string_keys [of "''agent_id''" "agentId q" "[]"] by simp
  then have "fst ` set ?s2 \<subseteq> {''message_type'', ''agent_id''}"
    using append_string_keys [of "''message_type''" "messageType q" ?s1] by blast
  then have "fst ` set ?s3 \<subseteq> {''start_date'', ''message_type'', ''agent_id''}"
    using append_string_keys [of "''start_date''" "startDate q" ?s2] by blast
  then have "fst ` set ?s4 \<subseteq> {''end_date'', ''start_date'', ''message_type'', ''agent_id''}"
    using append_string_keys [of "''end_date''" "endDate q" ?s3] by blast
  moreover have "getEvents_searchParams (Some (q\<lparr>limit := None\<rparr>)) = ?s4"
    by (simp add: getEvents_searchParams_def optional_field_def append_number_def)
  ultimately have "fst ` set (getEvents_searchParams (Some (q\<lparr>limit := None\<rparr>)))
          \<subseteq> {''end_date'', ''start_date'', ''message_type'', ''agent_id''}"
    by simp
  with sq show "''limit'' \<notin> fst ` set (getEvents_searchParams (Some (q\<lparr>limit := Some 0\<rparr>)))"
    by auto
qed

lemma getAgentMetrics_seven_days:
  "getAgentMetrics ''agent-1'' (Some \<lparr>days = Some 7, startDate = None, endDate = None\<rparr>)
     = ''/agents/agent-1/metrics?days=7''"
  by code_simp

lemma getAgentMetrics_encoded:
  "getAgentMetrics ''agent-1''
     (Some \<lparr>days = Some 30, startDate = Some ''2024-01-01'', endDate = Some ''a b&c''\<rparr>)
     = ''/agents/agent-1/metrics?days=30&start_date=2024-01-01&end_date=a+b%26c''"
  by code_simp

lemma nonzero_days_sent:
  "n \<noteq> 0 \<Longrightarrow> (''days'', number_toString n) \<in> set (getAgentMetrics_searchParams (Some (p\<lparr>days := Some n\<rparr>)))"
  by (auto simp: getAgentMetrics_searchParams_def optional_field_def append_number_def append_string_def
      split: option.splits)

text \<open>
  C10 for the agent \<open>agent-1\<close>: with \<open>days = 0\<close> the endpoint has no query string, and
  with \<open>limit = 0\<close> the query string of \<open>getEvents\<close> holds the agent only.
\<close>

theorem zero_days_and_zero_limit_dropped_witness:
  "getAgentMetrics ''agent-1'' (Some \<lparr>days = Some 0, startDate = None, endDate = None\<rparr>)
     = ''/agents/agent-1/metrics'' \<and>
   getEvents (Some \<lparr>agentId = Some ''agent-1'', messageType = None, startDate = None,
                    endDate = None, limit = Some 0\<rparr>) = ''/events?agent_id=agent-1''"
  using zero_days_and_zero_limit_dropped [of "''agent-1''"
      "\<lparr>days = Some 0, startDate = None, endDate = None\<rparr>"
      "\<lparr>agentId = Some ''agent-1'', messageType = None, startDate = None,
                    endDate = None, limit = Some 0\<rparr>"]
  by (simp add: getAgentMetrics_def getAgentMetrics_searchParams_def getEvents_def
        getEvents_searchParams_def optional_field_def append_number_def append_string_def
        urlencode_def urlencode_byte_def Let_def)

end
